theory Spec2Isabelle
  imports Complex_Main
begin

section \<open>The GlowBlaster seed script (scripts/seed_test_patterns.py)\<close>

text \<open>
  The script owns a literal list of five pattern records, posts each of them to
  \<^verbatim>\<open>{base_url}/api/glowblaster/patterns\<close>, prints one line per attempt and a
  final tally. It is modelled by explicit state passing over a \<open>world\<close> that records
  the calls made to \<^verbatim>\<open>requests.post\<close> and the lines written to standard output.
  The remote service is a parameter: a function giving the outcome of the \<open>k\<close>-th call.
  Exceptions are values of a sum type, \<open>Inl\<close> the exception.
\<close>

subsection \<open>Python values\<close>

text \<open>
  The values \<^verbatim>\<open>resp.json()\<close> can return. A decoded float is a rational, an
  infinity or a NaN (the decoder accepts \<^verbatim>\<open>Infinity\<close> and \<^verbatim>\<open>NaN\<close>); a
  decoded object is an association list from keys to values.
\<close>

datatype pyfloat = Finite rat | PosInf | NegInf | NaN

datatype pyval =
    PNone
  | PBool bool
  | PInt int
  | PFloat pyfloat
  | PStr string
  | PList "pyval list"
  | PDict "(string \<times> pyval) list"

text \<open>Python truth value testing, as \<^verbatim>\<open>if data.get("success"):\<close> applies it.\<close>

fun truthy :: "pyval \<Rightarrow> bool" where
  "truthy PNone = False"
| "truthy (PBool b) = b"
| "truthy (PInt i) = (i \<noteq> 0)"
| "truthy (PFloat f) = (f \<noteq> Finite 0)"
| "truthy (PStr s) = (s \<noteq> [])"
| "truthy (PList xs) = (xs \<noteq> [])"
| "truthy (PDict kvs) = (kvs \<noteq> [])"

text \<open>\<^verbatim>\<open>type(v).__name__\<close>, which the message of an AttributeError quotes.\<close>

fun type_name :: "pyval \<Rightarrow> string" where
  "type_name PNone = ''NoneType''"
| "type_name (PBool b) = ''bool''"
| "type_name (PInt i) = ''int''"
| "type_name (PFloat f) = ''float''"
| "type_name (PStr s) = ''str''"
| "type_name (PList xs) = ''list''"
| "type_name (PDict kvs) = ''dict''"

text \<open>
  \<^verbatim>\<open>str(v)\<close>, as an f-string field applies it: a string is itself; for every other
  decoded value \<^verbatim>\<open>str\<close> is \<^verbatim>\<open>repr\<close>, which is taken as the parameter
  \<open>repr\<close> (the digits of a float and the quoting of nested strings are the
  interpreter's business, not the script's).
\<close>

fun py_str :: "(pyval \<Rightarrow> string) \<Rightarrow> pyval \<Rightarrow> string" where
  "py_str repr (PStr s) = s"
| "py_str repr v = repr v"

text \<open>\<^verbatim>\<open>str(n)\<close> for a non-negative integer: its decimal digits.\<close>

definition digit :: "nat \<Rightarrow> char" where
  "digit d = ''0123456789'' ! d"

fun str_nat :: "nat \<Rightarrow> string" where
  "str_nat n = (if n < 10 then [digit n] else str_nat (n div 10) @ [digit (n mod 10)])"

declare str_nat.simps [simp del]

subsection \<open>Exceptions\<close>

text \<open>
  \<open>LibraryException msg\<close> is any exception derived from \<^verbatim>\<open>Exception\<close> that
  \<^verbatim>\<open>requests.post\<close> or \<^verbatim>\<open>resp.json()\<close> raises (connection error, timeout,
  JSON decode error, ...), with \<^verbatim>\<open>str(e) = msg\<close>. \<open>SystemExit\<close> is what argparse
  raises; it derives from \<^verbatim>\<open>BaseException\<close> only, so \<^verbatim>\<open>except Exception\<close> does not
  catch it.
\<close>

datatype exc =
    KeyError string
  | AttributeError string
  | LibraryException string
  | SystemExit nat

fun is_Exception :: "exc \<Rightarrow> bool" where
  "is_Exception (SystemExit n) = False"
| "is_Exception e = True"

text \<open>\<^verbatim>\<open>str(e)\<close>. For a KeyError it is the repr of the key; the keys here are plain words.\<close>

fun str_exc :: "exc \<Rightarrow> string" where
  "str_exc (KeyError k) = [CHR 0x27] @ k @ [CHR 0x27]"
| "str_exc (AttributeError msg) = msg"
| "str_exc (LibraryException msg) = msg"
| "str_exc (SystemExit n) = str_nat n"

text \<open>\<^verbatim>\<open>d[k]\<close> on a dict: KeyError when the key is absent.\<close>

definition subscript :: "(string \<times> 'v) list \<Rightarrow> string \<Rightarrow> exc + 'v" where
  "subscript d k = (case map_of d k of None \<Rightarrow> Inl (KeyError k) | Some v \<Rightarrow> Inr v)"

text \<open>
  \<^verbatim>\<open>data.get(k, default)\<close>: only a dict has the method; on any other decoded value
  the attribute lookup raises AttributeError.
\<close>

fun py_get :: "pyval \<Rightarrow> string \<Rightarrow> pyval \<Rightarrow> exc + pyval" where
  "py_get (PDict kvs) k dflt = Inr (case map_of kvs k of None \<Rightarrow> dflt | Some v \<Rightarrow> v)"
| "py_get v k dflt =
     Inl (AttributeError ([CHR 0x27] @ type_name v @ [CHR 0x27] @ '' object has no attribute '' @
                          [CHR 0x27] @ ''get'' @ [CHR 0x27]))"

subsection \<open>The fixed record list\<close>

text \<open>\<open>TEST_PATTERNS\<close>: five dict literals, each with the keys \<open>name\<close> and \<open>lcl\<close>.\<close>

definition TEST_PATTERNS :: "(string \<times> string) list list" where
  \<open>TEST_PATTERNS =
  [
    [(''name'', ''All Red''),
     (''lcl'',
        ''effect: solid\<newline>'' @
        ''name: "All Red"\<newline>'' @
        ''\<newline>'' @
        ''appearance:\<newline>'' @
        ''  color: red\<newline>'' @
        ''  brightness: bright\<newline>'' @
        ''\<newline>'' @
        ''timing:\<newline>'' @
        ''  speed: medium'')],
    [(''name'', ''All Blue''),
     (''lcl'',
        ''effect: solid\<newline>'' @
        ''name: "All Blue"\<newline>'' @
        ''\<newline>'' @
        ''appearance:\<newline>'' @
        ''  color: blue\<newline>'' @
        ''  brightness: bright\<newline>'' @
        ''\<newline>'' @
        ''timing:\<newline>'' @
        ''  speed: medium'')],
    [(''name'', ''All Green''),
     (''lcl'',
        ''effect: solid\<newline>'' @
        ''name: "All Green"\<newline>'' @
        ''\<newline>'' @
        ''appearance:\<newline>'' @
        ''  color: green\<newline>'' @
        ''  brightness: bright\<newline>'' @
        ''\<newline>'' @
        ''timing:\<newline>'' @
        ''  speed: medium'')],
    [(''name'', ''All White''),
     (''lcl'',
        ''effect: solid\<newline>'' @
        ''name: "All White"\<newline>'' @
        ''\<newline>'' @
        ''appearance:\<newline>'' @
        ''  color: white\<newline>'' @
        ''  brightness: bright\<newline>'' @
        ''\<newline>'' @
        ''timing:\<newline>'' @
        ''  speed: medium'')],
    [(''name'', ''Red, White, Blue''),
     (''lcl'',
        ''effect: chase\<newline>'' @
        ''name: "Red, White, Blue"\<newline>'' @
        ''\<newline>'' @
        ''behavior:\<newline>'' @
        ''  head_size: medium\<newline>'' @
        ''  tail_length: medium\<newline>'' @
        ''  tail_style: fade\<newline>'' @
        ''  count: triple\<newline>'' @
        ''\<newline>'' @
        ''appearance:\<newline>'' @
        ''  colors:\<newline>'' @
        ''    - red\<newline>'' @
        ''    - white\<newline>'' @
        ''    - blue\<newline>'' @
        ''  brightness: bright\<newline>'' @
        ''\<newline>'' @
        ''timing:\<newline>'' @
        ''  speed: medium\<newline>'' @
        ''\<newline>'' @
        ''spatial:\<newline>'' @
        ''  direction: forward'')]
  ]\<close>

subsection \<open>The HTTP client and the console\<close>

text \<open>What the script hands to \<^verbatim>\<open>requests.post(url, headers=headers, json=payload)\<close>.\<close>

record request =
  req_url :: string
  req_headers :: "(string \<times> string) list"
  req_json :: pyval

text \<open>
  A response, as far as the script can observe one: its status code and what
  \<^verbatim>\<open>resp.json()\<close> does, raise (\<open>Inl\<close> the exception's message) or return a value.
\<close>

record response =
  status_code :: int
  json_result :: "string + pyval"

text \<open>
  The network: the outcome of the \<open>k\<close>-th call of \<^verbatim>\<open>requests.post\<close> (counting from
  0) with a given request, either an exception (\<open>Inl\<close> its message) or a response.
  \<^verbatim>\<open>requests.post\<close> does not raise on a 4xx or 5xx status.
\<close>

type_synonym network = "nat \<Rightarrow> request \<Rightarrow> string + response"

record world =
  sent :: "request list"
  stdout :: "string list"

definition init_world :: world where
  "init_world = \<lparr>sent = [], stdout = []\<rparr>"

definition print_line :: "string \<Rightarrow> world \<Rightarrow> world" where
  "print_line s w = w\<lparr>stdout := stdout w @ [s]\<rparr>"

definition requests_post :: "network \<Rightarrow> request \<Rightarrow> world \<Rightarrow> (exc + response) \<times> world" where
  "requests_post net rq w =
     (case net (length (sent w)) rq of
        Inl msg \<Rightarrow> (Inl (LibraryException msg), w\<lparr>sent := sent w @ [rq]\<rparr>)
      | Inr resp \<Rightarrow> (Inr resp, w\<lparr>sent := sent w @ [rq]\<rparr>))"

definition resp_json :: "response \<Rightarrow> exc + pyval" where
  "resp_json resp =
     (case json_result resp of Inl msg \<Rightarrow> Inl (LibraryException msg) | Inr data \<Rightarrow> Inr data)"

subsection \<open>create_pattern\<close>

text \<open>
  The body of the \<^verbatim>\<open>try\<close> statement. \<open>n\<close> is \<^verbatim>\<open>pattern['name']\<close>, which the
  function has already read when it built the payload.
\<close>

definition try_block ::
  "network \<Rightarrow> (pyval \<Rightarrow> string) \<Rightarrow> string \<Rightarrow> (string \<times> string) list \<Rightarrow> pyval \<Rightarrow> string \<Rightarrow>
   world \<Rightarrow> (exc + bool) \<times> world" where
  "try_block net repr url headers payload n w =
     (case requests_post net \<lparr>req_url = url, req_headers = headers, req_json = payload\<rparr> w of
        (Inl e, w1) \<Rightarrow> (Inl e, w1)
      | (Inr resp, w1) \<Rightarrow>
          (case resp_json resp of
             Inl e \<Rightarrow> (Inl e, w1)
           | Inr data \<Rightarrow>
               (case py_get data ''success'' PNone of
                  Inl e \<Rightarrow> (Inl e, w1)
                | Inr s \<Rightarrow>
                    if truthy s then (Inr True, print_line (''  Created: '' @ n) w1)
                    else
                      (case py_get data ''error'' (PStr ''Unknown error'') of
                         Inl e \<Rightarrow> (Inl e, w1)
                       | Inr err \<Rightarrow>
                           (Inr False,
                            print_line (''  Failed: '' @ n @ '' - '' @ py_str repr err) w1)))))"

definition create_pattern ::
  "network \<Rightarrow> (pyval \<Rightarrow> string) \<Rightarrow> string \<Rightarrow> string \<Rightarrow> (string \<times> string) list \<Rightarrow>
   world \<Rightarrow> (exc + bool) \<times> world" where
  "create_pattern net repr base_url cookie pattern w =
     (let url = base_url @ ''/api/glowblaster/patterns'';
          headers = [(''Content-Type'', ''application/json''), (''Cookie'', cookie)]
      in case subscript pattern ''name'' of
           Inl e \<Rightarrow> (Inl e, w)
         | Inr n \<Rightarrow>
             (case subscript pattern ''lcl'' of
                Inl e \<Rightarrow> (Inl e, w)
              | Inr l \<Rightarrow>
                  (let payload = PDict [(''name'', PStr n), (''lcl'', PStr l)]
                   in case try_block net repr url headers payload n w of
                        (Inr b, w1) \<Rightarrow> (Inr b, w1)
                      | (Inl e, w1) \<Rightarrow>
                          if is_Exception e
                          then (Inr False,
                                print_line (''  Error: '' @ n @ '' - '' @ str_exc e) w1)
                          else (Inl e, w1))))"

subsection \<open>main\<close>

text \<open>
  The command line after argparse has read it: the value of each of the two options,
  if given. A missing required option makes \<^verbatim>\<open>parse_args\<close> exit with status 2.
\<close>

record cli =
  opt_base_url :: "string option"
  opt_cookie :: "string option"

record args =
  args_base_url :: string
  args_cookie :: string

definition parse_args :: "cli \<Rightarrow> exc + args" where
  "parse_args argv =
     (case opt_base_url argv of
        None \<Rightarrow> Inl (SystemExit 2)
      | Some b \<Rightarrow>
          (case opt_cookie argv of
             None \<Rightarrow> Inl (SystemExit 2)
           | Some c \<Rightarrow> Inr \<lparr>args_base_url = b, args_cookie = c\<rparr>))"

text \<open>The \<^verbatim>\<open>for\<close> loop of \<open>main\<close>, with the running \<open>success_count\<close>.\<close>

fun seed_loop ::
  "network \<Rightarrow> (pyval \<Rightarrow> string) \<Rightarrow> string \<Rightarrow> string \<Rightarrow> (string \<times> string) list list \<Rightarrow>
   nat \<Rightarrow> world \<Rightarrow> (exc + nat) \<times> world" where
  "seed_loop net repr base_url cookie [] success_count w = (Inr success_count, w)"
| "seed_loop net repr base_url cookie (pattern # rest) success_count w =
     (case create_pattern net repr base_url cookie pattern w of
        (Inl e, w1) \<Rightarrow> (Inl e, w1)
      | (Inr b, w1) \<Rightarrow>
          seed_loop net repr base_url cookie rest
            (if b then success_count + 1 else success_count) w1)"

text \<open>\<open>main\<close> with the record list as a parameter; the script runs it on \<open>TEST_PATTERNS\<close>.\<close>

definition main_on ::
  "(string \<times> string) list list \<Rightarrow> cli \<Rightarrow> network \<Rightarrow> (pyval \<Rightarrow> string) \<Rightarrow> world \<Rightarrow>
   (exc + unit) \<times> world" where
  "main_on patterns argv net repr w =
     (case parse_args argv of
        Inl e \<Rightarrow> (Inl e, w)
      | Inr a \<Rightarrow>
          (let w1 = print_line (''Seeding '' @ str_nat (length patterns) @ '' test patterns...'') w;
               w2 = print_line [] w1
           in case seed_loop net repr (args_base_url a) (args_cookie a) patterns 0 w2 of
                (Inl e, w3) \<Rightarrow> (Inl e, w3)
              | (Inr success_count, w3) \<Rightarrow>
                  (let w4 = print_line [] w3;
                       w5 = print_line (''Complete: '' @ str_nat success_count @ ''/'' @
                                        str_nat (length patterns) @ '' patterns created'') w4
                   in (Inr (), w5))))"

definition main :: "cli \<Rightarrow> network \<Rightarrow> (pyval \<Rightarrow> string) \<Rightarrow> world \<Rightarrow> (exc + unit) \<times> world" where
  "main = main_on TEST_PATTERNS"

text \<open>
  The process: \<open>main()\<close> is run in a fresh world; the exit status is 0 when it
  returns, the code of a \<open>SystemExit\<close>, and 1 for any other uncaught exception.
\<close>

definition run_script :: "cli \<Rightarrow> network \<Rightarrow> (pyval \<Rightarrow> string) \<Rightarrow> nat \<times> world" where
  "run_script argv net repr =
     (case main argv net repr init_world of
        (Inr u, w) \<Rightarrow> (0, w)
      | (Inl (SystemExit n), w) \<Rightarrow> (n, w)
      | (Inl e, w) \<Rightarrow> (1, w))"


subsection \<open>Auxiliary notions for the statements and proofs\<close>

text \<open>
  None of the following is code of the script. \<open>given\<close> is a command line with both
  options; \<open>api_request\<close> is the request the script builds for a record with name \<open>n\<close>
  and body \<open>l\<close>.
\<close>

abbreviation given :: "string \<Rightarrow> string \<Rightarrow> cli" where
  "given b c \<equiv> \<lparr>opt_base_url = Some b, opt_cookie = Some c\<rparr>"

abbreviation api_request :: "string \<Rightarrow> string \<Rightarrow> string \<Rightarrow> string \<Rightarrow> request" where
  "api_request b c n l \<equiv>
     \<lparr>req_url = b @ ''/api/glowblaster/patterns'',
      req_headers = [(''Content-Type'', ''application/json''), (''Cookie'', c)],
      req_json = PDict [(''name'', PStr n), (''lcl'', PStr l)]\<rparr>"

text \<open>A decoded value that is an object with a truthy \<open>success\<close> member.\<close>

fun has_truthy_success :: "pyval \<Rightarrow> bool" where
  "has_truthy_success (PDict kvs) =
     (case map_of kvs ''success'' of None \<Rightarrow> False | Some v \<Rightarrow> truthy v)"
| "has_truthy_success v = False"

text \<open>An outcome of a call that is a response decoding to such an object.\<close>

definition reports_success :: "string + response \<Rightarrow> bool" where
  "reports_success r =
     (case r of
        Inl msg \<Rightarrow> False
      | Inr resp \<Rightarrow>
          (case json_result resp of Inl msg \<Rightarrow> False | Inr data \<Rightarrow> has_truthy_success data))"

text \<open>The console line for a record named \<open>n\<close>, as a function of the call's outcome.\<close>

fun data_line :: "(pyval \<Rightarrow> string) \<Rightarrow> string \<Rightarrow> pyval \<Rightarrow> string" where
  "data_line repr n (PDict kvs) =
     (if has_truthy_success (PDict kvs) then ''  Created: '' @ n
      else ''  Failed: '' @ n @ '' - '' @
           py_str repr (case map_of kvs ''error'' of None \<Rightarrow> PStr ''Unknown error'' | Some v \<Rightarrow> v))"
| "data_line repr n v =
     ''  Error: '' @ n @ '' - '' @ [CHR 0x27] @ type_name v @ [CHR 0x27] @
     '' object has no attribute '' @ [CHR 0x27] @ ''get'' @ [CHR 0x27]"

definition item_line :: "(pyval \<Rightarrow> string) \<Rightarrow> string \<Rightarrow> string + response \<Rightarrow> string" where
  "item_line repr n r =
     (case r of
        Inl msg \<Rightarrow> ''  Error: '' @ n @ '' - '' @ msg
      | Inr resp \<Rightarrow>
          (case json_result resp of
             Inl msg \<Rightarrow> ''  Error: '' @ n @ '' - '' @ msg
           | Inr data \<Rightarrow> data_line repr n data))"

text \<open>A record that has both keys, and the value of a key it has.\<close>

definition pattern_ok :: "(string \<times> string) list \<Rightarrow> bool" where
  "pattern_ok p = (map_of p ''name'' \<noteq> None \<and> map_of p ''lcl'' \<noteq> None)"

definition dict_field :: "(string \<times> string) list \<Rightarrow> string \<Rightarrow> string" where
  "dict_field p k = (case map_of p k of None \<Rightarrow> [] | Some v \<Rightarrow> v)"

definition request_of :: "string \<Rightarrow> string \<Rightarrow> (string \<times> string) list \<Rightarrow> request" where
  "request_of b c p = api_request b c (dict_field p ''name'') (dict_field p ''lcl'')"

text \<open>The outcomes of the calls for the records \<open>ps\<close>, the first of them being call \<open>k\<close>.\<close>

definition replies ::
  "network \<Rightarrow> string \<Rightarrow> string \<Rightarrow> nat \<Rightarrow> (string \<times> string) list list \<Rightarrow> (string + response) list" where
  "replies net b c k ps = map (\<lambda>(i, p). net i (request_of b c p)) (enumerate k ps)"

text \<open>Three services and a \<open>repr\<close> to run the script on.\<close>

definition always_created :: network where
  "always_created k rq = Inr \<lparr>status_code = 200, json_result = Inr (PDict [(''success'', PBool True)])\<rparr>"

definition always_duplicate :: network where
  "always_duplicate k rq =
     Inr \<lparr>status_code = 409,
          json_result = Inr (PDict [(''success'', PBool False), (''error'', PStr ''duplicate'')])\<rparr>"

definition always_down :: network where
  "always_down k rq = Inl ''Connection refused''"

definition no_repr :: "pyval \<Rightarrow> string" where
  "no_repr v = []"

text \<open>
  The service \<open>net\<close> answering every call with the status code \<open>f\<close> chooses and
  the same body; \<open>fixed_status s\<close> chooses \<open>s\<close> for every call.
\<close>

definition with_status :: "(nat \<Rightarrow> request \<Rightarrow> int) \<Rightarrow> network \<Rightarrow> network" where
  "with_status f net k rq =
     (case net k rq of Inl msg \<Rightarrow> Inl msg | Inr resp \<Rightarrow> Inr (resp\<lparr>status_code := f k rq\<rparr>))"

definition fixed_status :: "int \<Rightarrow> nat \<Rightarrow> request \<Rightarrow> int" where
  "fixed_status s k rq = s"

section \<open>Properties\<close>

subsection \<open>One call of create_pattern\<close>

lemma try_block_raise:
  assumes "net (length (sent w)) \<lparr>req_url = url, req_headers = hs, req_json = pl\<rparr> = Inl msg"
  shows "try_block net repr url hs pl n w =
           (Inl (LibraryException msg),
            w\<lparr>sent := sent w @ [\<lparr>req_url = url, req_headers = hs, req_json = pl\<rparr>]\<rparr>)"
  using assms by (simp add: try_block_def requests_post_def)

lemma try_block_decode_raise:
  assumes "net (length (sent w)) \<lparr>req_url = url, req_headers = hs, req_json = pl\<rparr> = Inr resp"
    and "json_result resp = Inl msg"
  shows "try_block net repr url hs pl n w =
           (Inl (LibraryException msg),
            w\<lparr>sent := sent w @ [\<lparr>req_url = url, req_headers = hs, req_json = pl\<rparr>]\<rparr>)"
  using assms by (simp add: try_block_def requests_post_def resp_json_def)

lemma try_block_dict:
  assumes "net (length (sent w)) \<lparr>req_url = url, req_headers = hs, req_json = pl\<rparr> = Inr resp"
    and "json_result resp = Inr (PDict kvs)"
  shows "try_block net repr url hs pl n w =
           (Inr (has_truthy_success (PDict kvs)),
            w\<lparr>sent := sent w @ [\<lparr>req_url = url, req_headers = hs, req_json = pl\<rparr>],
              stdout := stdout w @ [data_line repr n (PDict kvs)]\<rparr>)"
  using assms
  by (simp add: try_block_def requests_post_def resp_json_def print_line_def split: option.splits)

lemma try_block_not_dict:
  assumes "net (length (sent w)) \<lparr>req_url = url, req_headers = hs, req_json = pl\<rparr> = Inr resp"
    and "json_result resp = Inr data" and "\<forall>kvs. data \<noteq> PDict kvs"
  shows "try_block net repr url hs pl n w =
           (Inl (AttributeError ([CHR 0x27] @ type_name data @ [CHR 0x27] @
                   '' object has no attribute '' @ [CHR 0x27] @ ''get'' @ [CHR 0x27])),
            w\<lparr>sent := sent w @ [\<lparr>req_url = url, req_headers = hs, req_json = pl\<rparr>]\<rparr>)"
  using assms
  by (cases data) (simp_all add: try_block_def requests_post_def resp_json_def)

lemma create_pattern_run:
  assumes "map_of p ''name'' = Some n" and "map_of p ''lcl'' = Some l"
  shows "create_pattern net repr b c p w =
           (Inr (reports_success (net (length (sent w)) (api_request b c n l))),
            w\<lparr>sent := sent w @ [api_request b c n l],
              stdout := stdout w @
                [item_line repr n (net (length (sent w)) (api_request b c n l))]\<rparr>)"
proof -
  let ?rq = "api_request b c n l"
  note defs = create_pattern_def subscript_def reports_success_def
    item_line_def print_line_def Let_def
  show ?thesis
  proof (cases "net (length (sent w)) ?rq")
    case (Inl msg)
    then show ?thesis using assms
      by (simp add: defs try_block_raise)
  next
    case (Inr resp)
    note net = this
    show ?thesis
    proof (cases "json_result resp")
      case (Inl msg)
      then show ?thesis using assms net
        by (simp add: defs try_block_decode_raise)
    next
      case (Inr data)
      show ?thesis
      proof (cases "\<exists>kvs. data = PDict kvs")
        case True
        then obtain kvs where "data = PDict kvs" by blast
        then show ?thesis using assms net Inr
          by (simp add: defs try_block_dict)
      next
        case False
        then have nd: "\<forall>kvs. data \<noteq> PDict kvs" by blast
        have "data_line repr n data =
                ''  Error: '' @ n @ '' - '' @ [CHR 0x27] @ type_name data @ [CHR 0x27] @
                '' object has no attribute '' @ [CHR 0x27] @ ''get'' @ [CHR 0x27]"
          using nd by (cases data) simp_all
        moreover have "\<not> has_truthy_success data"
          using nd by (cases data) simp_all
        ultimately show ?thesis using assms net Inr nd
          by (simp add: defs try_block_not_dict)
      qed
    qed
  qed
qed

lemma create_pattern_ok:
  assumes "pattern_ok p"
  shows "create_pattern net repr b c p w =
           (Inr (reports_success (net (length (sent w)) (request_of b c p))),
            w\<lparr>sent := sent w @ [request_of b c p],
              stdout := stdout w @
                [item_line repr (dict_field p ''name'')
                   (net (length (sent w)) (request_of b c p))]\<rparr>)"
proof -
  from assms obtain n l where "map_of p ''name'' = Some n" "map_of p ''lcl'' = Some l"
    by (auto simp: pattern_ok_def)
  then show ?thesis
    using create_pattern_run [of p n l net repr b c w]
    by (simp add: request_of_def dict_field_def)
qed

subsection \<open>The loop and the whole run\<close>

lemma replies_Nil: "replies net b c k [] = []"
  by (simp add: replies_def)

lemma replies_Cons:
  "replies net b c k (p # ps) = net k (request_of b c p) # replies net b c (Suc k) ps"
  by (simp add: replies_def)

lemma length_replies: "length (replies net b c k ps) = length ps"
  by (simp add: replies_def)

lemma seed_loop_run:
  assumes "\<forall>p \<in> set ps. pattern_ok p"
  shows "seed_loop net repr b c ps k w =
           (Inr (k + length (filter reports_success (replies net b c (length (sent w)) ps))),
            w\<lparr>sent := sent w @ map (request_of b c) ps,
              stdout := stdout w @
                map2 (\<lambda>p r. item_line repr (dict_field p ''name'') r) ps
                  (replies net b c (length (sent w)) ps)\<rparr>)"
  using assms
proof (induction ps arbitrary: k w)
  case Nil
  then show ?case by (simp add: replies_Nil)
next
  case (Cons p ps)
  then have ok: "pattern_ok p" and rest: "\<forall>q \<in> set ps. pattern_ok q" by simp_all
  show ?case
    by (simp add: create_pattern_ok [OF ok] Cons.IH [OF rest] replies_Cons)
qed

lemma TEST_PATTERNS_ok: "\<forall>p \<in> set TEST_PATTERNS. pattern_ok p"
  by (simp add: TEST_PATTERNS_def pattern_ok_def)

lemma length_TEST_PATTERNS: "length TEST_PATTERNS = 5"
  by (simp add: TEST_PATTERNS_def)

lemma str_nat_digit: "n < 10 \<Longrightarrow> str_nat n = [digit n]"
  by (simp add: str_nat.simps)

lemma str_nat_0: "str_nat 0 = ''0''"
  by (simp add: str_nat.simps digit_def)

lemma str_nat_5: "str_nat 5 = ''5''"
  by (simp add: str_nat.simps digit_def)

lemma main_run:
  "main (given b c) net repr init_world =
     (Inr (),
      \<lparr>sent = map (request_of b c) TEST_PATTERNS,
       stdout = [''Seeding 5 test patterns...'', []] @
                map2 (\<lambda>p r. item_line repr (dict_field p ''name'') r) TEST_PATTERNS
                  (replies net b c 0 TEST_PATTERNS) @
                [[], ''Complete: '' @
                     str_nat (length (filter reports_success (replies net b c 0 TEST_PATTERNS))) @
                     ''/5 patterns created'']\<rparr>)"
  by (simp add: main_def main_on_def parse_args_def seed_loop_run [OF TEST_PATTERNS_ok]
        print_line_def init_world_def length_TEST_PATTERNS str_nat_5 Let_def)

lemma run_script_run:
  "run_script (given b c) net repr =
     (0,
      \<lparr>sent = map (request_of b c) TEST_PATTERNS,
       stdout = [''Seeding 5 test patterns...'', []] @
                map2 (\<lambda>p r. item_line repr (dict_field p ''name'') r) TEST_PATTERNS
                  (replies net b c 0 TEST_PATTERNS) @
                [[], ''Complete: '' @
                     str_nat (length (filter reports_success (replies net b c 0 TEST_PATTERNS))) @
                     ''/5 patterns created'']\<rparr>)"
  by (simp add: run_script_def main_run)

text \<open>
  The two ways the process can end with another status: a required option is missing
  (status 2, before anything is printed), or a record lacks a key, which raises
  KeyError outside the \<^verbatim>\<open>try\<close> statement. No record of the fixed list lacks one.
\<close>

lemma missing_option_exit:
  "run_script \<lparr>opt_base_url = None, opt_cookie = Some c\<rparr> net repr = (2, init_world)"
  "run_script \<lparr>opt_base_url = Some b, opt_cookie = None\<rparr> net repr = (2, init_world)"
  by (simp_all add: run_script_def main_def main_on_def parse_args_def)

lemma missing_key_escapes:
  "main_on [[(''lcl'', l)]] (given b c) net repr init_world =
     (Inl (KeyError ''name''),
      \<lparr>sent = [], stdout = [''Seeding 1 test patterns...'', []]\<rparr>)"
  by (simp add: main_on_def parse_args_def create_pattern_def subscript_def print_line_def
      init_world_def str_nat.simps digit_def Let_def)

subsection \<open>The run, record by record\<close>

lemma replies_nth:
  assumes "i < length ps"
  shows "replies net b c k ps ! i = net (k + i) (request_of b c (ps ! i))"
  using assms by (simp add: replies_def nth_enumerate_eq)

lemma replies_upt:
  "replies net b c 0 ps = map (\<lambda>j. net j (request_of b c (ps ! j))) [0..<length ps]"
  by (rule nth_equalityI) (simp_all add: length_replies replies_nth)

lemma count_replies:
  "length (filter reports_success (replies net b c 0 ps)) =
   length (filter (\<lambda>j. reports_success (net j (request_of b c (ps ! j)))) [0..<length ps])"
  by (simp add: replies_upt filter_map comp_def)

lemma count_split:
  assumes "i < n"
  shows "length (filter P [0..<n]) =
         (if P i then 1 else 0) + length (filter (\<lambda>j. j \<noteq> i \<and> P j) [0..<n])"
  using assms
proof (induction n)
  case 0
  then show ?case by simp
next
  case (Suc n)
  show ?case
  proof (cases "i = n")
    case True
    have "filter (\<lambda>j. j \<noteq> i \<and> P j) [0..<n] = filter P [0..<n]"
      using True by (intro filter_cong) auto
    then show ?thesis using True by simp
  next
    case False
    with Suc.prems have "i < n" by simp
    from Suc.IH [OF this] False show ?thesis by auto
  qed
qed

lemma run_sent:
  "sent (snd (run_script (given b c) net repr)) = map (request_of b c) TEST_PATTERNS"
  by (simp add: run_script_run)

lemma run_sent_nth:
  assumes "i < length TEST_PATTERNS"
  shows "sent (snd (run_script (given b c) net repr)) ! i = request_of b c (TEST_PATTERNS ! i)"
  using assms by (simp add: run_sent)

lemma run_item_line:
  assumes "i < length TEST_PATTERNS"
  shows "stdout (snd (run_script (given b c) net repr)) ! (i + 2) =
           item_line repr (dict_field (TEST_PATTERNS ! i) ''name'')
             (net i (request_of b c (TEST_PATTERNS ! i)))"
  using assms
  by (simp add: run_script_run nth_append length_replies replies_nth)

lemma run_last_line:
  "last (stdout (snd (run_script (given b c) net repr))) =
     ''Complete: '' @
     str_nat (length (filter (\<lambda>j. reports_success (net j (request_of b c (TEST_PATTERNS ! j))))
                        [0..<length TEST_PATTERNS])) @
     ''/5 patterns created''"
  by (simp add: run_script_run count_replies)

lemma request_of_eq:
  assumes "map_of p ''name'' = Some n" and "map_of p ''lcl'' = Some l"
  shows "request_of b c p = api_request b c n l" and "dict_field p ''name'' = n" and "pattern_ok p"
  using assms by (simp_all add: request_of_def dict_field_def pattern_ok_def)

lemma run_tally:
  "last (stdout (snd (run_script (given b c) net repr))) =
     ''Complete: '' @
     str_nat (length (filter
        (\<lambda>j. reports_success (net j (sent (snd (run_script (given b c) net repr)) ! j)))
        [0..<length TEST_PATTERNS])) @
     ''/5 patterns created''"
proof -
  have "filter (\<lambda>j. reports_success (net j (sent (snd (run_script (given b c) net repr)) ! j)))
          [0..<length TEST_PATTERNS] =
        filter (\<lambda>j. reports_success (net j (request_of b c (TEST_PATTERNS ! j))))
          [0..<length TEST_PATTERNS]"
    by (intro filter_cong) (simp_all add: run_sent_nth)
  then show ?thesis by (simp add: run_last_line)
qed

lemma all_succeed_tally:
  assumes "\<forall>j < length TEST_PATTERNS. reports_success (net j (request_of b c (TEST_PATTERNS ! j)))"
  shows "last (stdout (snd (run_script (given b c) net repr))) = ''Complete: 5/5 patterns created''"
proof -
  have "filter (\<lambda>j. reports_success (net j (request_of b c (TEST_PATTERNS ! j))))
          [0..<length TEST_PATTERNS] = [0..<length TEST_PATTERNS]"
    using assms by (simp add: filter_id_conv)
  then show ?thesis
    by (simp add: run_last_line length_TEST_PATTERNS str_nat_5)
qed

lemma reports_success_always_created: "reports_success (always_created k rq)"
  by (simp add: reports_success_def always_created_def)

lemma outcome_raise:
  assumes "r = Inl msg \<or> (\<exists>resp. r = Inr resp \<and> json_result resp = Inl msg)"
  shows "\<not> reports_success r" and "item_line repr n r = ''  Error: '' @ n @ '' - '' @ msg"
  using assms by (auto simp: reports_success_def item_line_def)

lemma outcome_created:
  assumes "r = Inr resp" and "json_result resp = Inr (PDict kvs)"
    and "map_of kvs ''success'' = Some v" and "truthy v"
  shows "reports_success r" and "item_line repr n r = ''  Created: '' @ n"
  using assms by (simp_all add: reports_success_def item_line_def)

lemma outcome_failed:
  assumes "r = Inr resp" and "json_result resp = Inr (PDict kvs)"
    and "map_of kvs ''success'' = None \<or> (\<exists>v. map_of kvs ''success'' = Some v \<and> \<not> truthy v)"
  shows "\<not> reports_success r"
    and "item_line repr n r =
           ''  Failed: '' @ n @ '' - '' @
           (case map_of kvs ''error'' of None \<Rightarrow> ''Unknown error'' | Some e \<Rightarrow> py_str repr e)"
  using assms by (auto simp: reports_success_def item_line_def split: option.splits)

lemma loop_step:
  assumes "i < length TEST_PATTERNS"
    and "create_pattern net repr b c (TEST_PATTERNS ! i) w = (Inr ok, w')"
  shows "seed_loop net repr b c (drop i TEST_PATTERNS) k w =
         seed_loop net repr b c (drop (Suc i) TEST_PATTERNS) (if ok then k + 1 else k) w'"
proof -
  have "drop i TEST_PATTERNS = TEST_PATTERNS ! i # drop (Suc i) TEST_PATTERNS"
    using assms(1) by (simp add: Cons_nth_drop_Suc)
  then show ?thesis using assms(2) by simp
qed

lemma run_tally_split:
  assumes "i < length TEST_PATTERNS"
    and "map_of (TEST_PATTERNS ! i) ''name'' = Some n"
    and "map_of (TEST_PATTERNS ! i) ''lcl'' = Some l"
  shows "last (stdout (snd (run_script (given b c) net repr))) =
     ''Complete: '' @
     str_nat ((if reports_success (net i (api_request b c n l)) then 1 else 0) +
       length (filter
        (\<lambda>j. j \<noteq> i \<and> reports_success (net j (sent (snd (run_script (given b c) net repr)) ! j)))
        [0..<length TEST_PATTERNS])) @
     ''/5 patterns created''"
proof -
  let ?W = "snd (run_script (given b c) net repr)"
  have "sent ?W ! i = api_request b c n l"
    using assms by (simp add: run_sent_nth request_of_eq)
  then show ?thesis
    using count_split [OF assms(1), of "\<lambda>j. reports_success (net j (sent ?W ! j))"]
    by (simp add: run_tally)
qed

lemma run_line:
  assumes "i < length TEST_PATTERNS"
    and "map_of (TEST_PATTERNS ! i) ''name'' = Some n"
    and "map_of (TEST_PATTERNS ! i) ''lcl'' = Some l"
  shows "stdout (snd (run_script (given b c) net repr)) ! (i + 2) =
           item_line repr n (net i (api_request b c n l))"
  using run_item_line [OF assms(1), of b c net repr] assms(2,3)
  by (simp add: request_of_eq)

lemma first_record:
  "0 < length TEST_PATTERNS"
  "map_of (TEST_PATTERNS ! 0) ''name'' = Some ''All Red''"
  "map_of (TEST_PATTERNS ! 0) ''lcl'' = Some (dict_field (TEST_PATTERNS ! 0) ''lcl'')"
  by (simp_all add: TEST_PATTERNS_def dict_field_def)

subsection \<open>Status codes\<close>

lemma requests_post_with_status:
  "requests_post (with_status f net) rq w =
     (case requests_post net rq w of
        (Inl e, w1) \<Rightarrow> (Inl e, w1)
      | (Inr resp, w1) \<Rightarrow> (Inr (resp\<lparr>status_code := f (length (sent w)) rq\<rparr>), w1))"
  by (simp add: requests_post_def with_status_def split: sum.splits)

lemma resp_json_status: "resp_json (resp\<lparr>status_code := s\<rparr>) = resp_json resp"
  by (simp add: resp_json_def)

lemma try_block_with_status:
  "try_block (with_status f net) repr url hs pl n w = try_block net repr url hs pl n w"
  by (simp add: try_block_def requests_post_with_status resp_json_status
      split: prod.splits sum.splits)

lemma create_pattern_with_status:
  "create_pattern (with_status f net) repr b c p w = create_pattern net repr b c p w"
  unfolding create_pattern_def try_block_with_status by (rule refl)

lemma seed_loop_with_status:
  "seed_loop (with_status f net) repr b c ps k w = seed_loop net repr b c ps k w"
  by (induction ps arbitrary: k w)
    (simp_all add: create_pattern_with_status split: prod.splits sum.splits)

lemma run_script_with_status:
  "run_script argv (with_status f net) repr = run_script argv net repr"
  unfolding run_script_def main_def main_on_def seed_loop_with_status by (rule refl)

subsection \<open>The claims\<close>

text \<open>
  C2. Whatever the outcome of each call (a response reporting success, a response
  reporting failure, an exception), a run of the script with both options given calls
  \<^verbatim>\<open>requests.post\<close> once per record of the fixed list: five calls in all.
\<close>

theorem post_count:
  "length (sent (snd (run_script (given b c) net repr))) = length TEST_PATTERNS \<and>
   length TEST_PATTERNS = 5"
  by (simp add: run_script_run length_TEST_PATTERNS)

text \<open>
  C7. Run on an empty record list, \<open>main\<close> prints \<open>Seeding 0 test patterns...\<close>, an
  empty line, an empty line and the tally \<open>0/0 patterns created\<close> behind the word
  \<open>Complete:\<close>, and makes no HTTP call.
\<close>

theorem empty_list_run:
  "main_on [] (given b c) net repr init_world =
     (Inr (),
      \<lparr>sent = [],
       stdout = [''Seeding 0 test patterns...'', [], [],
                 ''Complete: '' @ ''0/0 patterns created'']\<rparr>)"
  by (simp add: main_on_def parse_args_def print_line_def init_world_def str_nat_0 Let_def)

text \<open>
  C8. With both options given, whatever the outcome of each call, \<open>main\<close> returns
  without an exception after the whole batch (five calls, five item lines between the
  announcement and the tally), and the process exits with status 0.
\<close>

theorem exit_status_zero:
  "fst (run_script (given b c) net repr) = 0 \<and>
   fst (main (given b c) net repr init_world) = Inr () \<and>
   length (sent (snd (run_script (given b c) net repr))) = 5 \<and>
   length (stdout (snd (run_script (given b c) net repr))) = 9"
  by (simp add: run_script_run main_run length_TEST_PATTERNS length_replies)

text \<open>
  C10. The URL of every call is the base URL followed by \<open>/api/glowblaster/patterns\<close>,
  with nothing removed or added: a base URL that ends in a slash gives a URL with
  \<open>//api/glowblaster/patterns\<close>.
\<close>

theorem url_concatenation:
  "map req_url (sent (snd (run_script (given b c) net repr))) =
     replicate 5 (b @ ''/api/glowblaster/patterns'') \<and>
   map req_url (sent (snd (run_script (given (b @ ''/'') c) net repr))) =
     replicate 5 (b @ ''//api/glowblaster/patterns'')"
  by (simp add: run_script_run request_of_def TEST_PATTERNS_def eval_nat_numeral)

text \<open>
  C1. For every record of the fixed list, the call made for it in a run (the \<open>i\<close>-th call
  for the \<open>i\<close>-th record) goes to the base URL followed by \<open>/api/glowblaster/patterns\<close>,
  with the two headers, and its JSON payload is the object with exactly the members
  \<open>name\<close> and \<open>lcl\<close>, holding the record's own strings unchanged.
\<close>

theorem payload_exact:
  assumes "i < length TEST_PATTERNS"
  shows "\<exists>n l. map_of (TEST_PATTERNS ! i) ''name'' = Some n \<and>
               map_of (TEST_PATTERNS ! i) ''lcl'' = Some l \<and>
               sent (snd (run_script (given b c) net repr)) ! i =
                 \<lparr>req_url = b @ ''/api/glowblaster/patterns'',
                  req_headers = [(''Content-Type'', ''application/json''), (''Cookie'', c)],
                  req_json = PDict [(''name'', PStr n), (''lcl'', PStr l)]\<rparr>"
proof -
  from assms have "pattern_ok (TEST_PATTERNS ! i)"
    using TEST_PATTERNS_ok by simp
  then obtain n l where nl: "map_of (TEST_PATTERNS ! i) ''name'' = Some n"
      "map_of (TEST_PATTERNS ! i) ''lcl'' = Some l"
    by (auto simp: pattern_ok_def)
  have "sent (snd (run_script (given b c) net repr)) ! i = api_request b c n l"
    using assms nl by (simp add: run_sent_nth request_of_eq)
  with nl show ?thesis by blast
qed

text \<open>
  The first call of a run: the body of the first record arrives with its eight line
  breaks and its double quotes.
\<close>

theorem payload_exact_witness:
  \<open>sent (snd (run_script (given ''http://localhost:8080'' ''session=abc'') always_down no_repr)) ! 0 =
     \<lparr>req_url = ''http://localhost:8080/api/glowblaster/patterns'',
      req_headers = [(''Content-Type'', ''application/json''), (''Cookie'', ''session=abc'')],
      req_json = PDict [(''name'', PStr ''All Red''),
        (''lcl'', PStr ''effect: solid\<newline>name: "All Red"\<newline>\<newline>appearance:\<newline>  color: red\<newline>  brightness: bright\<newline>\<newline>timing:\<newline>  speed: medium'')]\<rparr>\<close>
  using payload_exact [of 0 "''http://localhost:8080''" "''session=abc''" always_down no_repr]
  by (simp add: TEST_PATTERNS_def)



text \<open>
  C3, as stated: when every response is \<open>{"success": true}\<close> the last line printed is
  not the bare tally \<open>5/5 patterns created\<close>.
\<close>

theorem bare_tally_counterexample:
  "last (stdout (snd (run_script (given ''http://localhost:8080'' ''session=abc'')
                        always_created no_repr))) \<noteq> ''5/5 patterns created''"
  by (simp add: all_succeed_tally reports_success_always_created)

text \<open>
  C3, amended. The last line of a run is \<open>Complete: \<close> followed by the number of calls
  whose response decoded to an object with a truthy \<open>success\<close>, a slash, the number
  of records and \<open> patterns created\<close>. When every call's response decodes to such an
  object (\<open>{"success": true}\<close> is one), the last line is \<open>Complete: 5/5 patterns created\<close>.
\<close>

theorem final_tally:
  "last (stdout (snd (run_script (given b c) net repr))) =
     ''Complete: '' @
     str_nat (length (filter
        (\<lambda>j. reports_success (net j (sent (snd (run_script (given b c) net repr)) ! j)))
        [0..<length TEST_PATTERNS])) @
     ''/'' @ str_nat (length TEST_PATTERNS) @ '' patterns created'' \<and>
   ((\<forall>j < length TEST_PATTERNS. \<exists>resp kvs v.
        net j (sent (snd (run_script (given b c) net repr)) ! j) = Inr resp \<and>
        json_result resp = Inr (PDict kvs) \<and> map_of kvs ''success'' = Some v \<and> truthy v) \<longrightarrow>
    last (stdout (snd (run_script (given b c) net repr))) = ''Complete: 5/5 patterns created'')"
proof (intro conjI impI)
  show "last (stdout (snd (run_script (given b c) net repr))) =
     ''Complete: '' @
     str_nat (length (filter
        (\<lambda>j. reports_success (net j (sent (snd (run_script (given b c) net repr)) ! j)))
        [0..<length TEST_PATTERNS])) @
     ''/'' @ str_nat (length TEST_PATTERNS) @ '' patterns created''"
    by (simp add: run_tally length_TEST_PATTERNS str_nat_5)
next
  assume all: "\<forall>j < length TEST_PATTERNS. \<exists>resp kvs v.
        net j (sent (snd (run_script (given b c) net repr)) ! j) = Inr resp \<and>
        json_result resp = Inr (PDict kvs) \<and> map_of kvs ''success'' = Some v \<and> truthy v"
  have "\<forall>j < length TEST_PATTERNS. reports_success (net j (request_of b c (TEST_PATTERNS ! j)))"
  proof (intro allI impI)
    fix j assume j: "j < length TEST_PATTERNS"
    with all obtain resp kvs v where
      "net j (sent (snd (run_script (given b c) net repr)) ! j) = Inr resp"
      "json_result resp = Inr (PDict kvs)" "map_of kvs ''success'' = Some v" "truthy v"
      by blast
    with j show "reports_success (net j (request_of b c (TEST_PATTERNS ! j)))"
      by (simp add: run_sent_nth reports_success_def)
  qed
  then show "last (stdout (snd (run_script (given b c) net repr))) = ''Complete: 5/5 patterns created''"
    by (rule all_succeed_tally)
qed

text \<open>The run against a service that answers \<open>{"success": true}\<close> to every call.\<close>

theorem final_tally_witness:
  "last (stdout (snd (run_script (given ''http://localhost:8080'' ''session=abc'')
                        always_created no_repr))) = ''Complete: 5/5 patterns created''"
proof -
  let ?W = "snd (run_script (given ''http://localhost:8080'' ''session=abc'') always_created no_repr)"
  have "\<forall>j < length TEST_PATTERNS. \<exists>resp kvs v.
          always_created j (sent ?W ! j) = Inr resp \<and>
          json_result resp = Inr (PDict kvs) \<and> map_of kvs ''success'' = Some v \<and> truthy v"
    by (simp add: always_created_def)
  with final_tally [of "''http://localhost:8080''" "''session=abc''" always_created no_repr]
  show ?thesis by blast
qed


text \<open>
  C4. Take the \<open>i\<close>-th record of the fixed list and suppose that its call raises, in
  \<^verbatim>\<open>requests.post\<close> or in \<^verbatim>\<open>resp.json()\<close>, an exception with message \<open>msg\<close>.
  Then \<open>create_pattern\<close>, called when \<open>i\<close> calls have been made, catches it: it
  returns \<open>False\<close> having logged the call and printed \<open>  Error: <name> - <msg>\<close>;
  the loop goes on with the remaining records and the same counter; in the whole run
  that line is the one printed for the record, all five calls are made, and the
  tally counts only the other records.
\<close>

theorem exception_contained:
  assumes "i < length TEST_PATTERNS"
    and "map_of (TEST_PATTERNS ! i) ''name'' = Some n"
    and "map_of (TEST_PATTERNS ! i) ''lcl'' = Some l"
    and "net i (api_request b c n l) = Inl msg \<or>
         (\<exists>resp. net i (api_request b c n l) = Inr resp \<and> json_result resp = Inl msg)"
    and "length (sent w) = i"
  shows "create_pattern net repr b c (TEST_PATTERNS ! i) w =
           (Inr False,
            w\<lparr>sent := sent w @ [api_request b c n l],
              stdout := stdout w @ [''  Error: '' @ n @ '' - '' @ msg]\<rparr>) \<and>
         seed_loop net repr b c (drop i TEST_PATTERNS) k w =
           seed_loop net repr b c (drop (Suc i) TEST_PATTERNS) k
             (w\<lparr>sent := sent w @ [api_request b c n l],
                stdout := stdout w @ [''  Error: '' @ n @ '' - '' @ msg]\<rparr>) \<and>
         stdout (snd (run_script (given b c) net repr)) ! (i + 2) =
           ''  Error: '' @ n @ '' - '' @ msg \<and>
         length (sent (snd (run_script (given b c) net repr))) = length TEST_PATTERNS \<and>
         last (stdout (snd (run_script (given b c) net repr))) =
           ''Complete: '' @
           str_nat (length (filter
              (\<lambda>j. j \<noteq> i \<and>
                   reports_success (net j (sent (snd (run_script (given b c) net repr)) ! j)))
              [0..<length TEST_PATTERNS])) @
           ''/5 patterns created''"
proof -
  let ?r = "net i (api_request b c n l)"
  from assms(4) have no: "\<not> reports_success ?r"
    and line: "item_line repr n ?r = ''  Error: '' @ n @ '' - '' @ msg"
    by (rule outcome_raise)+
  have call: "create_pattern net repr b c (TEST_PATTERNS ! i) w =
           (Inr False,
            w\<lparr>sent := sent w @ [api_request b c n l],
              stdout := stdout w @ [''  Error: '' @ n @ '' - '' @ msg]\<rparr>)"
    using create_pattern_run [OF assms(2,3), of net repr b c w] assms(5) no line by simp
  have step: "seed_loop net repr b c (drop i TEST_PATTERNS) k w =
           seed_loop net repr b c (drop (Suc i) TEST_PATTERNS) k
             (w\<lparr>sent := sent w @ [api_request b c n l],
                stdout := stdout w @ [''  Error: '' @ n @ '' - '' @ msg]\<rparr>)"
    using loop_step [OF assms(1) call, of k] by simp
  have printed: "stdout (snd (run_script (given b c) net repr)) ! (i + 2) =
           ''  Error: '' @ n @ '' - '' @ msg"
    using run_line [OF assms(1,2,3), of b c net repr] line by simp
  have all: "length (sent (snd (run_script (given b c) net repr))) = length TEST_PATTERNS"
    by (simp add: run_sent)
  have tally: "last (stdout (snd (run_script (given b c) net repr))) =
           ''Complete: '' @
           str_nat (length (filter
              (\<lambda>j. j \<noteq> i \<and>
                   reports_success (net j (sent (snd (run_script (given b c) net repr)) ! j)))
              [0..<length TEST_PATTERNS])) @
           ''/5 patterns created''"
    using run_tally_split [OF assms(1,2,3), of b c net repr] no by simp
  from call step printed all tally show ?thesis by blast
qed


text \<open>The first record against a service that refuses every connection.\<close>

theorem exception_contained_witness:
  "create_pattern always_down no_repr ''http://localhost:8080'' ''session=abc''
     (TEST_PATTERNS ! 0) init_world =
     (Inr False,
      init_world\<lparr>sent := sent init_world @
          [api_request ''http://localhost:8080'' ''session=abc'' ''All Red''
             (dict_field (TEST_PATTERNS ! 0) ''lcl'')],
        stdout := stdout init_world @ [''  Error: All Red - Connection refused'']\<rparr>) \<and>
   stdout (snd (run_script (given ''http://localhost:8080'' ''session=abc'')
                  always_down no_repr)) ! 2 = ''  Error: All Red - Connection refused'' \<and>
   length (sent (snd (run_script (given ''http://localhost:8080'' ''session=abc'')
                  always_down no_repr))) = 5"
proof -
  have down: "always_down 0 (api_request ''http://localhost:8080'' ''session=abc'' ''All Red''
                 (dict_field (TEST_PATTERNS ! 0) ''lcl'')) = Inl ''Connection refused'' \<or>
        (\<exists>resp. always_down 0 (api_request ''http://localhost:8080'' ''session=abc'' ''All Red''
                 (dict_field (TEST_PATTERNS ! 0) ''lcl'')) = Inr resp \<and>
                json_result resp = Inl ''Connection refused'')"
    by (simp add: always_down_def)
  have fresh: "length (sent init_world) = 0"
    by (simp add: init_world_def)
  note run = exception_contained [where i = 0 and net = always_down and w = init_world
      and repr = no_repr, OF first_record down fresh]
  from run [THEN conjunct1] run [THEN conjunct2, THEN conjunct2, THEN conjunct1]
    run [THEN conjunct2, THEN conjunct2, THEN conjunct2, THEN conjunct1]
  show ?thesis by (simp add: length_TEST_PATTERNS numeral_2_eq_2)
qed


text \<open>
  C5. Take the \<open>i\<close>-th record of the fixed list and suppose that the response to its
  call decodes to an object whose \<open>success\<close> member is truthy. Then
  \<open>create_pattern\<close>, called when \<open>i\<close> calls have been made, logs the call, prints
  \<open>  Created: <name>\<close> and returns \<open>True\<close>; the loop goes on with the remaining
  records and the counter increased by exactly one; in the whole run that line is the
  one printed for the record, and the tally is one more than the count of the other
  records.
\<close>

theorem created_counts:
  assumes "i < length TEST_PATTERNS"
    and "map_of (TEST_PATTERNS ! i) ''name'' = Some n"
    and "map_of (TEST_PATTERNS ! i) ''lcl'' = Some l"
    and "net i (api_request b c n l) = Inr resp"
    and "json_result resp = Inr (PDict kvs)"
    and "map_of kvs ''success'' = Some v" and "truthy v"
    and "length (sent w) = i"
  shows "create_pattern net repr b c (TEST_PATTERNS ! i) w =
           (Inr True,
            w\<lparr>sent := sent w @ [api_request b c n l],
              stdout := stdout w @ [''  Created: '' @ n]\<rparr>) \<and>
         seed_loop net repr b c (drop i TEST_PATTERNS) k w =
           seed_loop net repr b c (drop (Suc i) TEST_PATTERNS) (k + 1)
             (w\<lparr>sent := sent w @ [api_request b c n l],
                stdout := stdout w @ [''  Created: '' @ n]\<rparr>) \<and>
         stdout (snd (run_script (given b c) net repr)) ! (i + 2) = ''  Created: '' @ n \<and>
         last (stdout (snd (run_script (given b c) net repr))) =
           ''Complete: '' @
           str_nat (1 + length (filter
              (\<lambda>j. j \<noteq> i \<and>
                   reports_success (net j (sent (snd (run_script (given b c) net repr)) ! j)))
              [0..<length TEST_PATTERNS])) @
           ''/5 patterns created''"
proof -
  let ?r = "net i (api_request b c n l)"
  from assms(4-7) have yes: "reports_success ?r"
    and line: "item_line repr n ?r = ''  Created: '' @ n"
    by (rule outcome_created)+
  have call: "create_pattern net repr b c (TEST_PATTERNS ! i) w =
           (Inr True,
            w\<lparr>sent := sent w @ [api_request b c n l],
              stdout := stdout w @ [''  Created: '' @ n]\<rparr>)"
    using create_pattern_run [OF assms(2,3), of net repr b c w] assms(8) yes line by simp
  have step: "seed_loop net repr b c (drop i TEST_PATTERNS) k w =
           seed_loop net repr b c (drop (Suc i) TEST_PATTERNS) (k + 1)
             (w\<lparr>sent := sent w @ [api_request b c n l],
                stdout := stdout w @ [''  Created: '' @ n]\<rparr>)"
    using loop_step [OF assms(1) call, of k] by simp
  have printed: "stdout (snd (run_script (given b c) net repr)) ! (i + 2) = ''  Created: '' @ n"
    using run_line [OF assms(1,2,3), of b c net repr] line by simp
  have tally: "last (stdout (snd (run_script (given b c) net repr))) =
           ''Complete: '' @
           str_nat (1 + length (filter
              (\<lambda>j. j \<noteq> i \<and>
                   reports_success (net j (sent (snd (run_script (given b c) net repr)) ! j)))
              [0..<length TEST_PATTERNS])) @
           ''/5 patterns created''"
    using run_tally_split [OF assms(1,2,3), of b c net repr] yes by simp
  from call step printed tally show ?thesis by blast
qed

text \<open>The first record against a service that answers \<open>{"success": true}\<close>.\<close>

theorem created_counts_witness:
  "create_pattern always_created no_repr ''http://localhost:8080'' ''session=abc''
     (TEST_PATTERNS ! 0) init_world =
     (Inr True,
      init_world\<lparr>sent := sent init_world @
          [api_request ''http://localhost:8080'' ''session=abc'' ''All Red''
             (dict_field (TEST_PATTERNS ! 0) ''lcl'')],
        stdout := stdout init_world @ [''  Created: All Red'']\<rparr>) \<and>
   stdout (snd (run_script (given ''http://localhost:8080'' ''session=abc'')
                  always_created no_repr)) ! 2 = ''  Created: All Red''"
proof -
  have reply: "always_created 0 (api_request ''http://localhost:8080'' ''session=abc'' ''All Red''
                 (dict_field (TEST_PATTERNS ! 0) ''lcl'')) =
               Inr \<lparr>status_code = 200, json_result = Inr (PDict [(''success'', PBool True)])\<rparr>"
    by (simp add: always_created_def)
  have body: "json_result \<lparr>status_code = 200, json_result = Inr (PDict [(''success'', PBool True)])\<rparr> =
              Inr (PDict [(''success'', PBool True)])"
    by simp
  have member: "map_of [(''success'', PBool True)] ''success'' = Some (PBool True)"
    by simp
  have true: "truthy (PBool True)"
    by simp
  have fresh: "length (sent init_world) = 0"
    by (simp add: init_world_def)
  note run = created_counts [where i = 0 and net = always_created and w = init_world
      and repr = no_repr, OF first_record reply body member true fresh]
  from run [THEN conjunct1] run [THEN conjunct2, THEN conjunct2, THEN conjunct1]
  show ?thesis by (simp add: numeral_2_eq_2)
qed

text \<open>
  C6. Take the \<open>i\<close>-th record of the fixed list and suppose that the response to its
  call decodes to an object in which \<open>success\<close> is absent or falsy. Then
  \<open>create_pattern\<close> prints \<open>  Failed: <name> - \<close> followed by the \<open>error\<close> member
  if there is one (a string as it is) and by \<open>Unknown error\<close> otherwise, and returns
  \<open>False\<close>; the loop goes on with the counter unchanged; the tally's numerator counts
  only the other records, while its denominator is the number of all records, five.
\<close>

theorem failure_reported:
  assumes "i < length TEST_PATTERNS"
    and "map_of (TEST_PATTERNS ! i) ''name'' = Some n"
    and "map_of (TEST_PATTERNS ! i) ''lcl'' = Some l"
    and "net i (api_request b c n l) = Inr resp"
    and "json_result resp = Inr (PDict kvs)"
    and "map_of kvs ''success'' = None \<or> (\<exists>v. map_of kvs ''success'' = Some v \<and> \<not> truthy v)"
    and "length (sent w) = i"
  shows "create_pattern net repr b c (TEST_PATTERNS ! i) w =
           (Inr False,
            w\<lparr>sent := sent w @ [api_request b c n l],
              stdout := stdout w @
                [''  Failed: '' @ n @ '' - '' @
                 (case map_of kvs ''error'' of
                    None \<Rightarrow> ''Unknown error'' | Some e \<Rightarrow> py_str repr e)]\<rparr>) \<and>
         seed_loop net repr b c (drop i TEST_PATTERNS) k w =
           seed_loop net repr b c (drop (Suc i) TEST_PATTERNS) k
             (w\<lparr>sent := sent w @ [api_request b c n l],
                stdout := stdout w @
                  [''  Failed: '' @ n @ '' - '' @
                   (case map_of kvs ''error'' of
                      None \<Rightarrow> ''Unknown error'' | Some e \<Rightarrow> py_str repr e)]\<rparr>) \<and>
         stdout (snd (run_script (given b c) net repr)) ! (i + 2) =
           ''  Failed: '' @ n @ '' - '' @
           (case map_of kvs ''error'' of None \<Rightarrow> ''Unknown error'' | Some e \<Rightarrow> py_str repr e) \<and>
         last (stdout (snd (run_script (given b c) net repr))) =
           ''Complete: '' @
           str_nat (length (filter
              (\<lambda>j. j \<noteq> i \<and>
                   reports_success (net j (sent (snd (run_script (given b c) net repr)) ! j)))
              [0..<length TEST_PATTERNS])) @
           ''/'' @ str_nat (length TEST_PATTERNS) @ '' patterns created'' \<and>
         length TEST_PATTERNS = 5"
proof -
  let ?r = "net i (api_request b c n l)"
  let ?line = "''  Failed: '' @ n @ '' - '' @
           (case map_of kvs ''error'' of None \<Rightarrow> ''Unknown error'' | Some e \<Rightarrow> py_str repr e)"
  from assms(4-6) have no: "\<not> reports_success ?r"
    and line: "item_line repr n ?r = ?line"
    by (rule outcome_failed)+
  have call: "create_pattern net repr b c (TEST_PATTERNS ! i) w =
           (Inr False, w\<lparr>sent := sent w @ [api_request b c n l], stdout := stdout w @ [?line]\<rparr>)"
    using create_pattern_run [OF assms(2,3), of net repr b c w] assms(7) no line by simp
  have step: "seed_loop net repr b c (drop i TEST_PATTERNS) k w =
           seed_loop net repr b c (drop (Suc i) TEST_PATTERNS) k
             (w\<lparr>sent := sent w @ [api_request b c n l], stdout := stdout w @ [?line]\<rparr>)"
    using loop_step [OF assms(1) call, of k] by simp
  have printed: "stdout (snd (run_script (given b c) net repr)) ! (i + 2) = ?line"
    using run_line [OF assms(1,2,3), of b c net repr] line by simp
  have tally: "last (stdout (snd (run_script (given b c) net repr))) =
           ''Complete: '' @
           str_nat (length (filter
              (\<lambda>j. j \<noteq> i \<and>
                   reports_success (net j (sent (snd (run_script (given b c) net repr)) ! j)))
              [0..<length TEST_PATTERNS])) @
           ''/'' @ str_nat (length TEST_PATTERNS) @ '' patterns created''"
    using run_tally_split [OF assms(1,2,3), of b c net repr] no
    by (simp add: length_TEST_PATTERNS str_nat_5)
  from call step printed tally length_TEST_PATTERNS show ?thesis by blast
qed

text \<open>
  The first record against a service that answers
  \<open>{"success": false, "error": "duplicate"}\<close>.
\<close>

theorem failure_reported_witness:
  "stdout (snd (run_script (given ''http://localhost:8080'' ''session=abc'')
                  always_duplicate no_repr)) ! 2 = ''  Failed: All Red - duplicate'' \<and>
   fst (create_pattern always_duplicate no_repr ''http://localhost:8080'' ''session=abc''
          (TEST_PATTERNS ! 0) init_world) = Inr False"
proof -
  let ?kvs = "[(''success'', PBool False), (''error'', PStr ''duplicate'')]"
  have reply: "always_duplicate 0 (api_request ''http://localhost:8080'' ''session=abc'' ''All Red''
                 (dict_field (TEST_PATTERNS ! 0) ''lcl'')) =
               Inr \<lparr>status_code = 409, json_result = Inr (PDict ?kvs)\<rparr>"
    by (simp add: always_duplicate_def)
  have body: "json_result \<lparr>status_code = 409, json_result = Inr (PDict ?kvs)\<rparr> = Inr (PDict ?kvs)"
    by simp
  have falsy: "map_of ?kvs ''success'' = None \<or>
               (\<exists>v. map_of ?kvs ''success'' = Some v \<and> \<not> truthy v)"
    by simp
  have fresh: "length (sent init_world) = 0"
    by (simp add: init_world_def)
  note run = failure_reported [where i = 0 and net = always_duplicate and w = init_world
      and repr = no_repr, OF first_record reply body falsy fresh]
  from run [THEN conjunct1] run [THEN conjunct2, THEN conjunct2, THEN conjunct1]
  show ?thesis by (simp add: numeral_2_eq_2)
qed


text \<open>
  C9. Nothing the script does depends on a status code: answering any calls with other
  status codes changes neither the result of \<open>create_pattern\<close> nor the run. So, for a
  record with both keys, a response with any status code \<open>sc\<close> (a 4xx or 5xx too)
  whose body decodes to an object with a truthy \<open>success\<close> makes \<open>create_pattern\<close>
  return \<open>True\<close>, and a 200 response whose body decodes to a value without a truthy
  \<open>success\<close> makes it return \<open>False\<close>.
\<close>

theorem status_code_ignored:
  assumes "map_of p ''name'' = Some n" and "map_of p ''lcl'' = Some l"
  shows "create_pattern (with_status f net) repr b c p w = create_pattern net repr b c p w \<and>
         run_script (given b c) (with_status f net) repr = run_script (given b c) net repr \<and>
         (net (length (sent w)) (api_request b c n l) =
            Inr \<lparr>status_code = sc, json_result = Inr (PDict kvs)\<rparr> \<and>
          map_of kvs ''success'' = Some v \<and> truthy v \<longrightarrow>
          fst (create_pattern net repr b c p w) = Inr True) \<and>
         (net (length (sent w)) (api_request b c n l) =
            Inr \<lparr>status_code = 200, json_result = Inr data\<rparr> \<and>
          \<not> has_truthy_success data \<longrightarrow>
          fst (create_pattern net repr b c p w) = Inr False)"
proof (intro conjI impI)
  show "create_pattern (with_status f net) repr b c p w = create_pattern net repr b c p w"
    by (rule create_pattern_with_status)
  show "run_script (given b c) (with_status f net) repr = run_script (given b c) net repr"
    by (rule run_script_with_status)
next
  assume "net (length (sent w)) (api_request b c n l) =
            Inr \<lparr>status_code = sc, json_result = Inr (PDict kvs)\<rparr> \<and>
          map_of kvs ''success'' = Some v \<and> truthy v"
  then show "fst (create_pattern net repr b c p w) = Inr True"
    by (simp add: create_pattern_run [OF assms] reports_success_def)
next
  assume "net (length (sent w)) (api_request b c n l) =
            Inr \<lparr>status_code = 200, json_result = Inr data\<rparr> \<and>
          \<not> has_truthy_success data"
  then show "fst (create_pattern net repr b c p w) = Inr False"
    by (simp add: create_pattern_run [OF assms] reports_success_def)
qed

text \<open>
  The first record: a 500 response with \<open>{"success": true}\<close> is a success, a 200
  response with \<open>{"success": false, "error": "duplicate"}\<close> a failure.
\<close>

theorem status_code_ignored_witness:
  "with_status (fixed_status 500) always_created 0
     (api_request ''http://localhost:8080'' ''session=abc'' ''All Red''
        (dict_field (TEST_PATTERNS ! 0) ''lcl'')) =
     Inr \<lparr>status_code = 500, json_result = Inr (PDict [(''success'', PBool True)])\<rparr> \<and>
   fst (create_pattern (with_status (fixed_status 500) always_created) no_repr
          ''http://localhost:8080'' ''session=abc'' (TEST_PATTERNS ! 0) init_world) = Inr True \<and>
   with_status (fixed_status 200) always_duplicate 0
     (api_request ''http://localhost:8080'' ''session=abc'' ''All Red''
        (dict_field (TEST_PATTERNS ! 0) ''lcl'')) =
     Inr \<lparr>status_code = 200,
          json_result = Inr (PDict [(''success'', PBool False), (''error'', PStr ''duplicate'')])\<rparr> \<and>
   fst (create_pattern (with_status (fixed_status 200) always_duplicate) no_repr
          ''http://localhost:8080'' ''session=abc'' (TEST_PATTERNS ! 0) init_world) = Inr False"
proof -
  let ?rq = "api_request ''http://localhost:8080'' ''session=abc'' ''All Red''
        (dict_field (TEST_PATTERNS ! 0) ''lcl'')"
  have r500: "with_status (fixed_status 500) always_created 0 ?rq =
     Inr \<lparr>status_code = 500, json_result = Inr (PDict [(''success'', PBool True)])\<rparr>"
    by (simp add: with_status_def fixed_status_def always_created_def)
  have r200: "with_status (fixed_status 200) always_duplicate 0 ?rq =
     Inr \<lparr>status_code = 200,
          json_result = Inr (PDict [(''success'', PBool False), (''error'', PStr ''duplicate'')])\<rparr>"
    by (simp add: with_status_def fixed_status_def always_duplicate_def)
  have fresh: "length (sent init_world) = 0"
    by (simp add: init_world_def)
  note a = status_code_ignored [OF first_record(2,3),
      where net = "with_status (fixed_status 500) always_created" and w = init_world
        and sc = 500 and kvs = "[(''success'', PBool True)]" and v = "PBool True"
        and repr = no_repr and b = "''http://localhost:8080''" and c = "''session=abc''"]
  note b = status_code_ignored [OF first_record(2,3),
      where net = "with_status (fixed_status 200) always_duplicate" and w = init_world
        and data = "PDict [(''success'', PBool False), (''error'', PStr ''duplicate'')]"
        and repr = no_repr and b = "''http://localhost:8080''" and c = "''session=abc''"]
  have ok: "fst (create_pattern (with_status (fixed_status 500) always_created) no_repr
          ''http://localhost:8080'' ''session=abc'' (TEST_PATTERNS ! 0) init_world) = Inr True"
    using a [THEN conjunct2, THEN conjunct2, THEN conjunct1] r500 fresh by simp
  have ko: "fst (create_pattern (with_status (fixed_status 200) always_duplicate) no_repr
          ''http://localhost:8080'' ''session=abc'' (TEST_PATTERNS ! 0) init_world) = Inr False"
    using b [THEN conjunct2, THEN conjunct2, THEN conjunct2] r200 fresh by simp
  from r500 ok r200 ko show ?thesis by blast
qed


end
